theory Spec2Isabelle
  imports Complex_Main
begin

section \<open>Values and exceptions\<close>

text \<open>
  A weather observation is whatever \<^verbatim>\<open>response.json()\<close> returns: a JSON value. An
  object is kept as the list of its members; a key is looked up with \<open>map_of\<close>. Python's
  floats are idealised as real numbers (no rounding, no NaN, no infinities); its integers
  are unbounded.
\<close>

datatype json =
    JNull
  | JBool bool
  | JInt int
  | JFloat real
  | JStr string
  | JList "json list"
  | JDict "(string \<times> json) list"

text \<open>The exceptions the modelled code can raise; all of them derive from \<^verbatim>\<open>Exception\<close>.\<close>

datatype error =
    AttributeError
  | IndexError
  | KeyError
  | TypeError
  | OverflowError
  | RequestException
  | JSONDecodeError

text \<open>Sequencing of statements that may raise: the first exception ends the computation.\<close>

definition then_do :: "error + 'a \<Rightarrow> ('a \<Rightarrow> error + 'b) \<Rightarrow> error + 'b" where
  "then_do m f = (case m of Inl e \<Rightarrow> Inl e | Inr v \<Rightarrow> f v)"

text \<open>\<^verbatim>\<open>try: body  except Exception as e: handler\<close>\<close>

definition try_except :: "error + 'a \<Rightarrow> (error \<Rightarrow> error + 'a) \<Rightarrow> error + 'a" where
  "try_except body handler = (case body of Inl e \<Rightarrow> handler e | Inr v \<Rightarrow> Inr v)"

text \<open>
  \<^verbatim>\<open>x.get(key, default)\<close>: only a dict has the method. A key that is present gives its
  value, whatever it is (also \<^verbatim>\<open>None\<close>).
\<close>

fun dict_get :: "json \<Rightarrow> string \<Rightarrow> json \<Rightarrow> error + json" where
  "dict_get (JDict kvs) k d = Inr (case map_of kvs k of None \<Rightarrow> d | Some v \<Rightarrow> v)"
| "dict_get _ k d = Inl AttributeError"

text \<open>
  \<^verbatim>\<open>x[0]\<close>: the first element of a list or string (IndexError when empty), KeyError on a
  dict (the keys of a JSON object are strings, never \<open>0\<close>), TypeError on anything else.
\<close>

fun getitem0 :: "json \<Rightarrow> error + json" where
  "getitem0 (JList []) = Inl IndexError"
| "getitem0 (JList (x # xs)) = Inr x"
| "getitem0 (JStr []) = Inl IndexError"
| "getitem0 (JStr (c # cs)) = Inr (JStr [c])"
| "getitem0 (JDict kvs) = Inl KeyError"
| "getitem0 _ = Inl TypeError"

text \<open>
  A value in an order comparison with an integer literal (\<^verbatim>\<open>temp > 35\<close>): \<^verbatim>\<open>int\<close>,
  \<^verbatim>\<open>float\<close> and \<^verbatim>\<open>bool\<close> (a subclass of \<^verbatim>\<open>int\<close>) are numbers and compare by value,
  an integer of any size included; everything else raises TypeError.
\<close>

fun num_of :: "json \<Rightarrow> error + real" where
  "num_of (JInt i) = Inr (real_of_int i)"
| "num_of (JFloat r) = Inr r"
| "num_of (JBool b) = Inr (if b then 1 else 0)"
| "num_of _ = Inl TypeError"

text \<open>
  True division \<^verbatim>\<open>x / d\<close> by a positive integer literal \<open>d\<close>. The quotient of two
  integers is the float nearest to the exact quotient, and OverflowError when that is
  beyond the largest float: a quotient of magnitude \<open>2^1024 - 2^970\<close> or more rounds to
  \<open>2^1024\<close>, which is no float. A float divides without error; a value that is no number
  raises TypeError.
\<close>

definition float_limit :: real where
  "float_limit = 2 ^ 1024 - 2 ^ 970"

definition in_float_range :: "real \<Rightarrow> bool" where
  "in_float_range q = (\<bar>q\<bar> < float_limit)"

fun true_div :: "json \<Rightarrow> real \<Rightarrow> error + real" where
  "true_div (JInt i) d =
     (if in_float_range (real_of_int i / d) then Inr (real_of_int i / d) else Inl OverflowError)"
| "true_div (JFloat r) d = Inr (r / d)"
| "true_div (JBool b) d = Inr ((if b then 1 else 0) / d)"
| "true_div _ d = Inl TypeError"

section \<open>WeatherRiskAnalyzer\<close>

definition weather_risk_weights :: "(string \<times> real) list" where
  "weather_risk_weights =
    [(''Thunderstorm'', 0.9),
     (''Tornado'', 1.0),
     (''Hurricane'', 1.0),
     (''Tropical Storm'', 0.9),
     (''Rain'', 0.6),
     (''Snow'', 0.7),
     (''Extreme'', 0.8),
     (''Drizzle'', 0.3),
     (''Clouds'', 0.2),
     (''Clear'', 0.1)]"

text \<open>
  \<^verbatim>\<open>self.weather_risk_weights.get(main_condition, d)\<close>: the key must be hashable, which a
  list or a dict is not; a hashable key that is no string equals no key of the table.
\<close>

fun weights_get :: "json \<Rightarrow> real \<Rightarrow> error + real" where
  "weights_get (JStr s) d = Inr (case map_of weather_risk_weights s of None \<Rightarrow> d | Some w \<Rightarrow> w)"
| "weights_get (JList xs) d = Inl TypeError"
| "weights_get (JDict kvs) d = Inl TypeError"
| "weights_get _ d = Inr d"

definition calculate_risk :: "json \<Rightarrow> error + real" where
  "calculate_risk weather_data =
    (let base_risk = 0.1 in
     then_do (dict_get weather_data ''weather'' (JList [JDict []])) (\<lambda>weather.
     then_do (getitem0 weather) (\<lambda>weather0.
     then_do (dict_get weather0 ''main'' (JStr ''Clear'')) (\<lambda>main_condition.
     then_do (weights_get main_condition 0.1) (\<lambda>weather_risk.
     then_do (dict_get weather_data ''main'' (JDict [])) (\<lambda>main.
     then_do (dict_get main ''temp'' (JInt 0)) (\<lambda>temp_value.
     then_do (num_of temp_value) (\<lambda>temp.
     let temp_risk =
           (if temp > 35 \<or> temp < - 10 then 0.3
            else if temp > 30 \<or> temp < 0 then 0.2
            else 0) in
     then_do (dict_get weather_data ''wind'' (JDict [])) (\<lambda>wind.
     then_do (dict_get wind ''speed'' (JInt 0)) (\<lambda>wind_speed.
     then_do (true_div wind_speed 100) (\<lambda>wind_quotient.
     let wind_risk = min wind_quotient 0.4 in
     then_do (dict_get weather_data ''rain'' (JDict [])) (\<lambda>rain_dict.
     then_do (dict_get rain_dict ''1h'' (JInt 0)) (\<lambda>rain.
     then_do (true_div rain 50) (\<lambda>rain_quotient.
     let rain_risk = min rain_quotient 0.3 in
     let total_risk = min 0.95 (base_risk + weather_risk + temp_risk + wind_risk + rain_risk) in
     Inr total_risk))))))))))))))"

subsection \<open>The fields of an observation\<close>

text \<open>
  The four fields the score depends on, as \<open>calculate_risk\<close> reads them (with the
  default of an absent key): the primary condition label \<^verbatim>\<open>weather[0].main\<close>, the
  temperature \<^verbatim>\<open>main.temp\<close>, the wind speed \<^verbatim>\<open>wind.speed\<close> and the precipitation of
  the last hour \<^verbatim>\<open>rain.1h\<close>, the last three as the number the value stands for.
\<close>

definition condition_of :: "json \<Rightarrow> error + json" where
  "condition_of obs =
     then_do (dict_get obs ''weather'' (JList [JDict []])) (\<lambda>weather.
     then_do (getitem0 weather) (\<lambda>weather0.
     dict_get weather0 ''main'' (JStr ''Clear'')))"

definition temperature_of :: "json \<Rightarrow> error + real" where
  "temperature_of obs =
     then_do (dict_get obs ''main'' (JDict [])) (\<lambda>main.
     then_do (dict_get main ''temp'' (JInt 0)) num_of)"

definition wind_speed_of :: "json \<Rightarrow> error + real" where
  "wind_speed_of obs =
     then_do (dict_get obs ''wind'' (JDict [])) (\<lambda>wind.
     then_do (dict_get wind ''speed'' (JInt 0)) num_of)"

definition precipitation_of :: "json \<Rightarrow> error + real" where
  "precipitation_of obs =
     then_do (dict_get obs ''rain'' (JDict [])) (\<lambda>rain_dict.
     then_do (dict_get rain_dict ''1h'' (JInt 0)) num_of)"

text \<open>The two quotients \<^verbatim>\<open>wind_speed / 100\<close> and \<^verbatim>\<open>rain / 50\<close> of an observation.\<close>

definition wind_quotient_of :: "json \<Rightarrow> error + real" where
  "wind_quotient_of obs =
     then_do (dict_get obs ''wind'' (JDict [])) (\<lambda>wind.
     then_do (dict_get wind ''speed'' (JInt 0)) (\<lambda>wind_speed. true_div wind_speed 100))"

definition rain_quotient_of :: "json \<Rightarrow> error + real" where
  "rain_quotient_of obs =
     then_do (dict_get obs ''rain'' (JDict [])) (\<lambda>rain_dict.
     then_do (dict_get rain_dict ''1h'' (JInt 0)) (\<lambda>rain. true_div rain 50))"

text \<open>A value that can be a dictionary key: anything but a list or a dict.\<close>

fun hashable :: "json \<Rightarrow> bool" where
  "hashable (JList xs) = False"
| "hashable (JDict kvs) = False"
| "hashable _ = True"

fun is_number :: "json \<Rightarrow> bool" where
  "is_number (JInt i) = True"
| "is_number (JFloat r) = True"
| "is_number (JBool b) = True"
| "is_number _ = False"

text \<open>A number that can be divided by \<open>d\<close>: a float, or an integer whose quotient is in range.\<close>

fun divisible_by :: "real \<Rightarrow> json \<Rightarrow> bool" where
  "divisible_by d (JInt i) = in_float_range (real_of_int i / d)"
| "divisible_by d (JFloat r) = True"
| "divisible_by d (JBool b) = True"
| "divisible_by d _ = False"

subsection \<open>The scoring formula as the specification words it\<close>

text \<open>
  The weight of a condition label, entry by entry of the fixed table, and 0.1 for a label
  the table does not have.
\<close>

definition condition_weight :: "json \<Rightarrow> real" where
  "condition_weight label =
     (if label = JStr ''Tornado'' \<or> label = JStr ''Hurricane'' then 1.0
      else if label = JStr ''Thunderstorm'' \<or> label = JStr ''Tropical Storm'' then 0.9
      else if label = JStr ''Extreme'' then 0.8
      else if label = JStr ''Snow'' then 0.7
      else if label = JStr ''Rain'' then 0.6
      else if label = JStr ''Drizzle'' then 0.3
      else if label = JStr ''Clouds'' then 0.2
      else if label = JStr ''Clear'' then 0.1
      else 0.1)"

definition temp_risk_spec :: "real \<Rightarrow> real" where
  "temp_risk_spec temperature =
     (if temperature > 35 \<or> temperature < - 10 then 0.3
      else if temperature > 30 \<or> temperature < 0 then 0.2
      else 0)"

definition score_spec :: "json \<Rightarrow> real \<Rightarrow> real \<Rightarrow> real \<Rightarrow> real" where
  "score_spec label temperature windSpeed precipitation =
     min 0.95 (0.1 + condition_weight label + temp_risk_spec temperature
               + min (windSpeed / 100) 0.4 + min (precipitation / 50) 0.3)"

subsection \<open>The documented defaults\<close>

text \<open>
  The fields of an observation as the data model words them: the condition label,
  "Clear" when absent; the temperature, the wind speed and the precipitation of the last
  hour, each 0 when absent. Absent means that the member, or the object that would hold
  it, is not there.
\<close>

fun number_value :: "json \<Rightarrow> real" where
  "number_value (JInt i) = real_of_int i"
| "number_value (JFloat r) = r"
| "number_value (JBool b) = (if b then 1 else 0)"
| "number_value _ = 0"

definition member_or_default :: "json \<Rightarrow> string \<Rightarrow> string \<Rightarrow> json \<Rightarrow> json" where
  "member_or_default obs outer inner d =
     (case obs of
        JDict kvs \<Rightarrow>
          (case map_of kvs outer of
             Some (JDict members) \<Rightarrow> (case map_of members inner of Some v \<Rightarrow> v | None \<Rightarrow> d)
           | _ \<Rightarrow> d)
      | _ \<Rightarrow> d)"

definition condition_or_default :: "json \<Rightarrow> json" where
  "condition_or_default obs =
     (case obs of
        JDict kvs \<Rightarrow>
          (case map_of kvs ''weather'' of
             Some (JList (JDict members # rest)) \<Rightarrow>
               (case map_of members ''main'' of Some c \<Rightarrow> c | None \<Rightarrow> JStr ''Clear'')
           | _ \<Rightarrow> JStr ''Clear'')
      | _ \<Rightarrow> JStr ''Clear'')"

definition temperature_or_default :: "json \<Rightarrow> real" where
  "temperature_or_default obs = number_value (member_or_default obs ''main'' ''temp'' (JInt 0))"

definition wind_speed_or_default :: "json \<Rightarrow> real" where
  "wind_speed_or_default obs = number_value (member_or_default obs ''wind'' ''speed'' (JInt 0))"

definition precipitation_or_default :: "json \<Rightarrow> real" where
  "precipitation_or_default obs = number_value (member_or_default obs ''rain'' ''1h'' (JInt 0))"

subsection \<open>Observations of the expected shape\<close>

text \<open>
  An observation has the expected shape when it is an object in which every member the
  score reads is either absent or of the type the computation needs: \<^verbatim>\<open>weather\<close> a
  non-empty list whose first element is an object with a hashable \<^verbatim>\<open>main\<close> (if any);
  \<^verbatim>\<open>main\<close> an object whose \<^verbatim>\<open>temp\<close> (if any) is a number; \<^verbatim>\<open>wind\<close> and \<^verbatim>\<open>rain\<close>
  objects whose \<^verbatim>\<open>speed\<close> and \<^verbatim>\<open>1h\<close> (if any) are numbers that can be divided by 100
  and by 50.
\<close>

fun absent_or :: "('a \<Rightarrow> bool) \<Rightarrow> 'a option \<Rightarrow> bool" where
  "absent_or P None = True"
| "absent_or P (Some v) = P v"

fun member_shape :: "(json \<Rightarrow> bool) \<Rightarrow> string \<Rightarrow> json \<Rightarrow> bool" where
  "member_shape P k (JDict kvs) = absent_or P (map_of kvs k)"
| "member_shape P k _ = False"

fun weather_shape :: "json \<Rightarrow> bool" where
  "weather_shape (JList (JDict kvs # rest)) = absent_or hashable (map_of kvs ''main'')"
| "weather_shape _ = False"

fun expected_shape :: "json \<Rightarrow> bool" where
  "expected_shape (JDict kvs) =
     (absent_or weather_shape (map_of kvs ''weather'')
      \<and> absent_or (member_shape is_number ''temp'') (map_of kvs ''main'')
      \<and> absent_or (member_shape (divisible_by 100) ''speed'') (map_of kvs ''wind'')
      \<and> absent_or (member_shape (divisible_by 50) ''1h'') (map_of kvs ''rain''))"
| "expected_shape _ = False"

text \<open>
  Replacing one member of an object, all others kept: \<^verbatim>\<open>d[k] = v\<close> on a copy of \<open>d\<close>.
\<close>

fun dict_set :: "string \<Rightarrow> json \<Rightarrow> (string \<times> json) list \<Rightarrow> (string \<times> json) list" where
  "dict_set k v [] = [(k, v)]"
| "dict_set k v ((k', v') # kvs) =
     (if k' = k then (k, v) # kvs else (k', v') # dict_set k v kvs)"

text \<open>
  The observation with members \<open>kvs\<close> whose \<^verbatim>\<open>wind\<close> object is \<open>wind\<close> with its
  \<^verbatim>\<open>speed\<close> set to \<open>v\<close>, and the one whose \<^verbatim>\<open>rain\<close> object is \<open>rain\<close> with its \<^verbatim>\<open>1h\<close>
  set to \<open>v\<close>.
\<close>

definition with_wind_speed :: "(string \<times> json) list \<Rightarrow> (string \<times> json) list \<Rightarrow> json \<Rightarrow> json" where
  "with_wind_speed kvs wind v = JDict (dict_set ''wind'' (JDict (dict_set ''speed'' v wind)) kvs)"

definition with_precipitation :: "(string \<times> json) list \<Rightarrow> (string \<times> json) list \<Rightarrow> json \<Rightarrow> json" where
  "with_precipitation kvs rain v = JDict (dict_set ''rain'' (JDict (dict_set ''1h'' v rain)) kvs)"

text \<open>
  Two results compare when both are scores, the first at most the second, or both are
  the same exception.
\<close>

fun result_le :: "error + real \<Rightarrow> error + real \<Rightarrow> bool" where
  "result_le (Inr a) (Inr b) = (a \<le> b)"
| "result_le (Inl e) (Inl e') = (e = e')"
| "result_le _ _ = False"

section \<open>DisasterResponseSystem\<close>

record location =
  name :: string
  lat :: real
  lon :: real

text \<open>
  A risk snapshot is the dict \<open>fetch_weather_data\<close> returns; its key \<^verbatim>\<open>weather_data\<close>
  is the field \<open>snapshot_weather_data\<close>, the name \<open>weather_data\<close> being the attribute
  of the system below.
\<close>

record risk_snapshot =
  location :: string
  latitude :: real
  longitude :: real
  snapshot_weather_data :: json
  risk_score :: real
  timestamp :: string

record disaster_response_system =
  weather_data :: "string \<rightharpoonup> risk_snapshot"
  api_key :: string
  monitored_locations :: "location list"


subsection \<open>The environment of a refresh pass\<close>

text \<open>
  The request parameters, the response of the weather service and the world a pass runs
  in: what \<^verbatim>\<open>requests.get\<close> gives for a request (an exception, or a response with its
  status and the outcome of \<^verbatim>\<open>response.json()\<close>, which raises on a body that does not
  parse), and what the clock reads when the snapshot of a location is built. The worker
  threads share no state and \<^verbatim>\<open>executor.map\<close> yields the results in the order of its
  inputs, so a pass is a function of these outcomes.
\<close>

record params =
  params_lat :: real
  params_lon :: real
  appid :: string
  units :: string

record response =
  status_code :: int
  json :: "error + json"

record world =
  requests_get :: "string \<Rightarrow> params \<Rightarrow> error + response"
  now_isoformat :: "location \<Rightarrow> string"

definition base_url :: string where
  "base_url = ''http://api.openweathermap.org/data/2.5/weather''"

definition request_params :: "disaster_response_system \<Rightarrow> location \<Rightarrow> params" where
  "request_params self loc =
     \<lparr>params_lat = lat loc, params_lon = lon loc, appid = api_key self, units = ''metric''\<rparr>"

text \<open>
  The body of the \<^verbatim>\<open>try\<close> block falls through to the end of the function, which
  returns \<^verbatim>\<open>None\<close>, when the status is not 200; the handler prints and returns
  \<^verbatim>\<open>None\<close>.
\<close>

definition fetch_weather_data ::
  "world \<Rightarrow> disaster_response_system \<Rightarrow> location \<Rightarrow> error + risk_snapshot option" where
  "fetch_weather_data w self loc =
     (let params = request_params self loc in
      try_except
        (then_do (requests_get w base_url params) (\<lambda>response.
           if status_code response = 200 then
             then_do (json response) (\<lambda>observation.
             then_do (calculate_risk observation) (\<lambda>score.
             Inr (Some \<lparr>location = name loc,
                        latitude = lat loc,
                        longitude = lon loc,
                        snapshot_weather_data = observation,
                        risk_score = score,
                        timestamp = now_isoformat w loc\<rparr>)))
           else Inr None))
        (\<lambda>e. Inr None))"

text \<open>
  \<^verbatim>\<open>list(executor.map(f, xs))\<close>: the results in the order of \<open>xs\<close>, or the first
  exception in that order.
\<close>

fun executor_map :: "('a \<Rightarrow> error + 'b) \<Rightarrow> 'a list \<Rightarrow> error + 'b list" where
  "executor_map f [] = Inr []"
| "executor_map f (x # xs) =
     then_do (f x) (\<lambda>y. then_do (executor_map f xs) (\<lambda>ys. Inr (y # ys)))"

text \<open>
  The dict comprehension \<^verbatim>\<open>{result["location"]: result for result in valid_results}\<close>
  inserts in order, a later result replacing an earlier one of the same key.
\<close>

definition dict_by_location :: "risk_snapshot list \<Rightarrow> (string \<rightharpoonup> risk_snapshot)" where
  "dict_by_location rs = foldl (\<lambda>m r. m(location r \<mapsto> r)) Map.empty rs"

definition update_all_locations ::
  "world \<Rightarrow> disaster_response_system \<Rightarrow> error + (risk_snapshot list \<times> disaster_response_system)" where
  "update_all_locations w self =
     then_do (executor_map (fetch_weather_data w self) (monitored_locations self)) (\<lambda>results.
     let valid_results = map the (filter (\<lambda>r. r \<noteq> None) results) in
     Inr (valid_results, self\<lparr>weather_data := dict_by_location valid_results\<rparr>))"

definition get_risk_color :: "real \<Rightarrow> string" where
  "get_risk_color score =
     (if score < 0.3 then ''green''
      else if score < 0.7 then ''orange''
      else ''red'')"

subsection \<open>Outcomes of a fetch\<close>

text \<open>
  A fetch fails when the request raises (network error), when the status is not 200, or
  when the body does not parse. A fetch is dropped by the scorer when the response has
  status 200 and a body that parses, on which \<open>calculate_risk\<close> raises.
\<close>

definition fetch_fails :: "world \<Rightarrow> disaster_response_system \<Rightarrow> location \<Rightarrow> bool" where
  "fetch_fails w self loc =
     (case requests_get w base_url (request_params self loc) of
        Inl e \<Rightarrow> True
      | Inr response \<Rightarrow>
          status_code response \<noteq> 200 \<or> (case json response of Inl e \<Rightarrow> True | Inr observation \<Rightarrow> False))"

definition scorer_raises :: "world \<Rightarrow> disaster_response_system \<Rightarrow> location \<Rightarrow> bool" where
  "scorer_raises w self loc =
     (case requests_get w base_url (request_params self loc) of
        Inl e \<Rightarrow> False
      | Inr response \<Rightarrow>
          status_code response = 200
          \<and> (case json response of
                Inl e \<Rightarrow> False
              | Inr observation \<Rightarrow> (case calculate_risk observation of Inl e \<Rightarrow> True | Inr score \<Rightarrow> False)))"

text \<open>The record a fetch gives, if it gives one.\<close>

definition fetched :: "world \<Rightarrow> disaster_response_system \<Rightarrow> location \<Rightarrow> risk_snapshot option" where
  "fetched w self loc = (case fetch_weather_data w self loc of Inl e \<Rightarrow> None | Inr r \<Rightarrow> r)"

subsection \<open>Sample inputs\<close>

definition clear_sky :: json where
  "clear_sky =
     JDict [(''weather'', JList [JDict [(''main'', JStr ''Clear'')]]),
            (''main'', JDict [(''temp'', JInt 20), (''humidity'', JInt 40)]),
            (''wind'', JDict [(''speed'', JInt 5)])]"

definition negative_wind_speed :: json where
  "negative_wind_speed = JDict [(''wind'', JDict [(''speed'', JInt (- 1000))])]"

definition temperature_as_text :: json where
  "temperature_as_text = JDict [(''main'', JDict [(''temp'', JStr ''hot'')])]"

definition empty_weather_list :: json where
  "empty_weather_list = JDict [(''weather'', JList [])]"

definition huge_wind_speed :: json where
  "huge_wind_speed = JDict [(''wind'', JDict [(''speed'', JInt (10 ^ 400))])]"

definition rain_and_wind :: json where
  "rain_and_wind =
     JDict [(''weather'', JList [JDict [(''main'', JStr ''Rain'')]]),
            (''wind'', JDict [(''speed'', JInt 10), (''deg'', JInt 270)])]"

text \<open>
  A world where New York's request raises, Los Angeles answers 404, Chicago answers 200
  with a body that does not parse, and every other location answers 200 with a clear
  sky; and one where every location answers 200 with an empty \<^verbatim>\<open>weather\<close> list.
\<close>

definition mixed_world :: world where
  "mixed_world =
     \<lparr>requests_get = (\<lambda>url p.
        if params_lat p = 40.7128 then Inl RequestException
        else if params_lat p = 34.0522 then Inr \<lparr>status_code = 404, json = Inr (JDict [])\<rparr>
        else if params_lat p = 41.8781 then Inr \<lparr>status_code = 200, json = Inl JSONDecodeError\<rparr>
        else Inr \<lparr>status_code = 200, json = Inr clear_sky\<rparr>),
      now_isoformat = (\<lambda>loc. ''2026-01-01T00:00:00'')\<rparr>"

definition empty_weather_world :: world where
  "empty_weather_world =
     \<lparr>requests_get = (\<lambda>url p. Inr \<lparr>status_code = 200, json = Inr empty_weather_list\<rparr>),
      now_isoformat = (\<lambda>loc. ''2026-01-01T00:00:00'')\<rparr>"

definition stale_new_york :: risk_snapshot where
  "stale_new_york =
     \<lparr>location = ''New York'', latitude = 40.7128, longitude = - 74.0060,
      snapshot_weather_data = JDict [], risk_score = 0.2,
      timestamp = ''2025-12-31T23:59:30''\<rparr>"

definition three_cities :: disaster_response_system where
  "three_cities =
     \<lparr>weather_data = [''New York'' \<mapsto> stale_new_york],
      api_key = ''key'',
      monitored_locations =
        [\<lparr>name = ''New York'', lat = 40.7128, lon = - 74.0060\<rparr>,
         \<lparr>name = ''Miami'', lat = 25.7617, lon = - 80.1918\<rparr>,
         \<lparr>name = ''Denver'', lat = 39.7392, lon = - 104.9903\<rparr>]\<rparr>"

definition no_cities :: disaster_response_system where
  "no_cities = \<lparr>weather_data = Map.empty, api_key = ''key'', monitored_locations = []\<rparr>"

section \<open>Properties of the risk score\<close>

subsection \<open>Sequencing\<close>

lemma then_do_Inr [simp]: "then_do (Inr v) f = f v"
  by (simp add: then_do_def)

lemma then_do_Inl [simp]: "then_do (Inl e) f = Inl e"
  by (simp add: then_do_def)

lemma then_do_eq_Inr: "then_do m f = Inr y \<longleftrightarrow> (\<exists>v. m = Inr v \<and> f v = Inr y)"
  by (cases m) simp_all

lemma then_do_assoc: "then_do (then_do m f) g = then_do m (\<lambda>v. then_do (f v) g)"
  by (cases m) simp_all

subsection \<open>Division and the float range\<close>

lemma float_limit_large: "2 ^ 1023 \<le> float_limit"
proof -
  have "(2::real) ^ 970 \<le> 2 ^ 1023"
    by (rule power_increasing) simp_all
  moreover have "(2::real) ^ 1024 = 2 * 2 ^ 1023"
    by (simp add: power_Suc [symmetric] del: power_Suc)
  ultimately show ?thesis
    unfolding float_limit_def by linarith
qed

lemma in_float_range_small: "\<bar>q\<bar> \<le> 1000 \<Longrightarrow> in_float_range q"
proof -
  assume q: "\<bar>q\<bar> \<le> 1000"
  have "(1000::real) < 2 ^ 10" by simp
  also have "(2::real) ^ 10 \<le> 2 ^ 1023"
    by (rule power_increasing) simp_all
  finally have "(1000::real) < float_limit"
    using float_limit_large by linarith
  with q show ?thesis by (simp add: in_float_range_def)
qed

lemma true_div_Inr: "true_div v d = Inr q \<Longrightarrow> \<exists>x. num_of v = Inr x \<and> q = x / d"
  by (cases v) (auto split: if_splits)

lemma true_div_in_range:
  "num_of v = Inr x \<Longrightarrow> in_float_range (x / d) \<Longrightarrow> true_div v d = Inr (x / d)"
  by (cases v) auto

lemma true_div_divisible:
  "divisible_by d v \<Longrightarrow> true_div v d = Inr (number_value v / d)"
  by (cases v) simp_all

lemma num_of_number: "is_number v \<Longrightarrow> num_of v = Inr (number_value v)"
  by (cases v) simp_all

lemma divisible_is_number: "divisible_by d v \<Longrightarrow> is_number v"
  by (cases v) simp_all

subsection \<open>The score in terms of the four fields\<close>

lemma calculate_risk_fields:
  "calculate_risk obs =
     then_do (condition_of obs) (\<lambda>c.
     then_do (weights_get c 0.1) (\<lambda>cw.
     then_do (temperature_of obs) (\<lambda>t.
     then_do (wind_quotient_of obs) (\<lambda>wq.
     then_do (rain_quotient_of obs) (\<lambda>pq.
     Inr (min 0.95 (0.1 + cw + temp_risk_spec t + min wq 0.4 + min pq 0.3)))))))"
  by (simp add: calculate_risk_def condition_of_def temperature_of_def wind_quotient_of_def
      rain_quotient_of_def temp_risk_spec_def then_do_assoc Let_def)

lemma wind_quotient_Inr:
  "wind_quotient_of obs = Inr q \<Longrightarrow> \<exists>w. wind_speed_of obs = Inr w \<and> q = w / 100"
  unfolding wind_quotient_of_def wind_speed_of_def then_do_eq_Inr
  by (auto dest: true_div_Inr)

lemma rain_quotient_Inr:
  "rain_quotient_of obs = Inr q \<Longrightarrow> \<exists>p. precipitation_of obs = Inr p \<and> q = p / 50"
  unfolding rain_quotient_of_def precipitation_of_def then_do_eq_Inr
  by (auto dest: true_div_Inr)

lemma wind_quotient_in_range:
  "wind_speed_of obs = Inr w \<Longrightarrow> in_float_range (w / 100) \<Longrightarrow> wind_quotient_of obs = Inr (w / 100)"
  unfolding wind_quotient_of_def wind_speed_of_def then_do_eq_Inr
  by (auto dest: true_div_in_range)

lemma rain_quotient_in_range:
  "precipitation_of obs = Inr p \<Longrightarrow> in_float_range (p / 50) \<Longrightarrow> rain_quotient_of obs = Inr (p / 50)"
  unfolding rain_quotient_of_def precipitation_of_def then_do_eq_Inr
  by (auto dest: true_div_in_range)

lemma weights_get_default: "hashable c \<Longrightarrow> weights_get c 0.1 = Inr (condition_weight c)"
  by (cases c) (auto simp add: condition_weight_def weather_risk_weights_def)

lemma weights_get_Inr: "weights_get c 0.1 = Inr cw \<Longrightarrow> hashable c \<and> cw = condition_weight c"
  by (cases c) (auto simp add: condition_weight_def weather_risk_weights_def split: if_splits)

lemma condition_weight_bounds: "0.1 \<le> condition_weight c \<and> condition_weight c \<le> 1"
  by (simp add: condition_weight_def)

lemma temp_risk_spec_bounds: "0 \<le> temp_risk_spec t \<and> temp_risk_spec t \<le> 0.3"
  by (simp add: temp_risk_spec_def)

lemma calculate_risk_of_quotients:
  assumes "condition_of obs = Inr c" and "hashable c"
    and "temperature_of obs = Inr t"
    and "wind_quotient_of obs = Inr (w / 100)"
    and "rain_quotient_of obs = Inr (p / 50)"
  shows "calculate_risk obs = Inr (score_spec c t w p)"
  using assms by (simp add: calculate_risk_fields weights_get_default score_spec_def)

lemma calculate_risk_Inr:
  assumes "calculate_risk obs = Inr s"
  shows "\<exists>c t w p. condition_of obs = Inr c \<and> hashable c \<and> temperature_of obs = Inr t
           \<and> wind_speed_of obs = Inr w \<and> precipitation_of obs = Inr p \<and> s = score_spec c t w p"
proof -
  from assms obtain c cw t wq pq where c: "condition_of obs = Inr c"
    and cw: "weights_get c 0.1 = Inr cw" and t: "temperature_of obs = Inr t"
    and wq: "wind_quotient_of obs = Inr wq" and pq: "rain_quotient_of obs = Inr pq"
    and s: "s = min 0.95 (0.1 + cw + temp_risk_spec t + min wq 0.4 + min pq 0.3)"
    unfolding calculate_risk_fields then_do_eq_Inr by auto
  from wind_quotient_Inr [OF wq] obtain w where w: "wind_speed_of obs = Inr w" "wq = w / 100"
    by blast
  from rain_quotient_Inr [OF pq] obtain p where p: "precipitation_of obs = Inr p" "pq = p / 50"
    by blast
  from weights_get_Inr [OF cw] have "hashable c" "cw = condition_weight c" by simp_all
  with c t w p s show ?thesis by (auto simp: score_spec_def)
qed

lemma score_spec_upper: "score_spec c t w p \<le> 0.95"
  unfolding score_spec_def by (rule min.cobounded1)

lemma score_spec_lower: "0 \<le> w \<Longrightarrow> 0 \<le> p \<Longrightarrow> 0 \<le> score_spec c t w p"
  using condition_weight_bounds [of c] temp_risk_spec_bounds [of t]
  by (simp add: score_spec_def min_def)

lemma calculate_risk_clear_sky: "calculate_risk clear_sky = Inr 0.25"
  by (simp add: calculate_risk_def clear_sky_def weather_risk_weights_def in_float_range_small)

lemma calculate_risk_empty_weather_list: "calculate_risk empty_weather_list = Inl IndexError"
  by (simp add: calculate_risk_def empty_weather_list_def)

subsection \<open>Range of the score\<close>

text \<open>
  C1 (as the code has it): whenever \<open>calculate_risk\<close> returns a score, the score is at
  most 0.95; it is at least 0 when the wind speed and the precipitation of the observation
  are not negative. Nothing clamps the score from below.
\<close>

theorem calculate_risk_range:
  assumes "calculate_risk obs = Inr s"
    and "wind_speed_of obs = Inr w" and "precipitation_of obs = Inr p"
  shows "s \<le> 0.95 \<and> (0 \<le> w \<and> 0 \<le> p \<longrightarrow> 0 \<le> s)"
  using calculate_risk_Inr [OF assms(1)] assms(2,3) score_spec_upper score_spec_lower
  by auto

text \<open>The clear-sky observation: wind speed 5, no precipitation, score 0.25.\<close>

theorem calculate_risk_range_witness:
  "calculate_risk clear_sky = Inr 0.25 \<and> wind_speed_of clear_sky = Inr 5
   \<and> precipitation_of clear_sky = Inr 0 \<and> (0.25::real) \<le> 0.95 \<and> (0::real) \<le> 0.25"
  using calculate_risk_range [of clear_sky "0.25" 5 0]
  by (simp add: calculate_risk_def wind_speed_of_def precipitation_of_def clear_sky_def
      weather_risk_weights_def in_float_range_small)

text \<open>
  C1 as stated fails: the observation \<^verbatim>\<open>{"wind": {"speed": -1000}}\<close> has the score
  0.1 + 0.1 + 0 + (-10) + 0 = -9.8, below 0.
\<close>

theorem calculate_risk_negative_score:
  "calculate_risk negative_wind_speed = Inr (- 9.8) \<and> (- 9.8 :: real) < 0"
  by (simp add: calculate_risk_def negative_wind_speed_def weather_risk_weights_def
      in_float_range_small)

subsection \<open>Totality and the defaults\<close>

lemma number_read:
  assumes "absent_or (member_shape is_number k) (map_of kvs f)"
  shows "then_do (dict_get (JDict kvs) f (JDict [])) (\<lambda>m. then_do (dict_get m k (JInt 0)) num_of)
         = Inr (number_value (member_or_default (JDict kvs) f k (JInt 0)))"
proof (cases "map_of kvs f")
  case None
  then show ?thesis by (simp add: member_or_default_def)
next
  case (Some d)
  with assms have "member_shape is_number k d" by simp
  then obtain members where d: "d = JDict members"
    and shape: "absent_or is_number (map_of members k)"
    by (cases d) simp_all
  show ?thesis
  proof (cases "map_of members k")
    case None
    with Some d show ?thesis by (simp add: member_or_default_def)
  next
    case (Some u)
    with shape have "num_of u = Inr (number_value u)" by (simp add: num_of_number)
    with Some \<open>map_of kvs f = Some d\<close> d show ?thesis by (simp add: member_or_default_def)
  qed
qed

lemma quotient_read:
  assumes "absent_or (member_shape (divisible_by d) k) (map_of kvs f)"
  shows "then_do (dict_get (JDict kvs) f (JDict []))
           (\<lambda>m. then_do (dict_get m k (JInt 0)) (\<lambda>v. true_div v d))
         = Inr (number_value (member_or_default (JDict kvs) f k (JInt 0)) / d)"
proof (cases "map_of kvs f")
  case None
  then show ?thesis by (simp add: member_or_default_def in_float_range_small)
next
  case (Some x)
  with assms have "member_shape (divisible_by d) k x" by simp
  then obtain members where x: "x = JDict members"
    and shape: "absent_or (divisible_by d) (map_of members k)"
    by (cases x) simp_all
  show ?thesis
  proof (cases "map_of members k")
    case None
    with Some x show ?thesis by (simp add: member_or_default_def in_float_range_small)
  next
    case (Some u)
    with shape have "true_div u d = Inr (number_value u / d)" by (simp add: true_div_divisible)
    with Some \<open>map_of kvs f = Some x\<close> x show ?thesis by (simp add: member_or_default_def)
  qed
qed

lemma member_shape_mono:
  assumes "\<And>v. P v \<Longrightarrow> Q v"
  shows "absent_or (member_shape P k) x \<Longrightarrow> absent_or (member_shape Q k) x"
proof (cases x)
  case None
  then show ?thesis by simp
next
  case (Some d)
  assume "absent_or (member_shape P k) x"
  with Some have shape: "member_shape P k d" by simp
  then obtain members where d: "d = JDict members" by (cases d) simp_all
  with shape assms have "member_shape Q k d"
    by (cases "map_of members k") simp_all
  with Some show ?thesis by simp
qed

lemma condition_read:
  assumes "absent_or weather_shape (map_of kvs ''weather'')"
  shows "condition_of (JDict kvs) = Inr (condition_or_default (JDict kvs))
         \<and> hashable (condition_or_default (JDict kvs))"
proof (cases "map_of kvs ''weather''")
  case None
  then show ?thesis by (simp add: condition_of_def condition_or_default_def)
next
  case (Some ws)
  with assms have "weather_shape ws" by simp
  then obtain members rest where ws: "ws = JList (JDict members # rest)"
    and h: "absent_or hashable (map_of members ''main'')"
    by (induction ws rule: weather_shape.induct) simp_all
  show ?thesis
  proof (cases "map_of members ''main''")
    case None
    with Some ws show ?thesis by (simp add: condition_of_def condition_or_default_def)
  next
    case (Some c)
    with h \<open>map_of kvs ''weather'' = Some ws\<close> ws show ?thesis
      by (simp add: condition_of_def condition_or_default_def)
  qed
qed

text \<open>
  C2 (as the code has it): on every observation of the expected shape, in which any of
  the members read may be absent, \<open>calculate_risk\<close> returns a score. Each field is read
  as the value of its member, or as the documented default when the member is absent
  ("Clear", 0, 0, 0), and the score returned is the formula on the fields read this way.
\<close>

theorem calculate_risk_total_on_expected_shape:
  assumes "expected_shape obs"
  shows "condition_of obs = Inr (condition_or_default obs)
       \<and> temperature_of obs = Inr (temperature_or_default obs)
       \<and> wind_speed_of obs = Inr (wind_speed_or_default obs)
       \<and> precipitation_of obs = Inr (precipitation_or_default obs)
       \<and> calculate_risk obs
           = Inr (score_spec (condition_or_default obs) (temperature_or_default obs)
                    (wind_speed_or_default obs) (precipitation_or_default obs))"
proof -
  from assms obtain kvs where obs: "obs = JDict kvs"
    by (cases obs) simp_all
  from assms obs have shape:
    "absent_or weather_shape (map_of kvs ''weather'')"
    "absent_or (member_shape is_number ''temp'') (map_of kvs ''main'')"
    "absent_or (member_shape (divisible_by 100) ''speed'') (map_of kvs ''wind'')"
    "absent_or (member_shape (divisible_by 50) ''1h'') (map_of kvs ''rain'')"
    by simp_all
  from condition_read [OF shape(1)] obs
  have c: "condition_of obs = Inr (condition_or_default obs)" "hashable (condition_or_default obs)"
    by simp_all
  from number_read [OF shape(2)] obs
  have t: "temperature_of obs = Inr (temperature_or_default obs)"
    by (simp add: temperature_of_def temperature_or_default_def)
  from number_read [OF member_shape_mono [OF divisible_is_number shape(3)]] obs
  have w: "wind_speed_of obs = Inr (wind_speed_or_default obs)"
    by (simp add: wind_speed_of_def wind_speed_or_default_def)
  from number_read [OF member_shape_mono [OF divisible_is_number shape(4)]] obs
  have p: "precipitation_of obs = Inr (precipitation_or_default obs)"
    by (simp add: precipitation_of_def precipitation_or_default_def)
  from quotient_read [OF shape(3)] obs
  have wq: "wind_quotient_of obs = Inr (wind_speed_or_default obs / 100)"
    by (simp add: wind_quotient_of_def wind_speed_or_default_def)
  from quotient_read [OF shape(4)] obs
  have pq: "rain_quotient_of obs = Inr (precipitation_or_default obs / 50)"
    by (simp add: rain_quotient_of_def precipitation_or_default_def)
  from c(1) t w p calculate_risk_of_quotients [OF c t wq pq] show ?thesis by simp
qed

text \<open>
  An observation with a condition and a wind speed, and neither temperature nor
  precipitation: label "Rain", wind speed 10, the two others at their default 0, score
  0.1 + 0.6 + 0 + 0.1 + 0 = 0.8.
\<close>

theorem calculate_risk_total_on_expected_shape_witness:
  "expected_shape rain_and_wind
   \<and> condition_or_default rain_and_wind = JStr ''Rain''
   \<and> temperature_or_default rain_and_wind = 0
   \<and> wind_speed_or_default rain_and_wind = 10
   \<and> precipitation_or_default rain_and_wind = 0
   \<and> calculate_risk rain_and_wind = Inr 0.8"
  using calculate_risk_total_on_expected_shape [of rain_and_wind]
  by (simp add: rain_and_wind_def condition_or_default_def temperature_or_default_def
      wind_speed_or_default_def precipitation_or_default_def member_or_default_def
      score_spec_def condition_weight_def temp_risk_spec_def in_float_range_small)

text \<open>
  C2 as stated fails: on \<^verbatim>\<open>{"main": {"temp": "hot"}}\<close> the comparison of the
  temperature with 35 raises TypeError.
\<close>

theorem calculate_risk_raises_on_text_temperature:
  "calculate_risk temperature_as_text = Inl TypeError"
  by (simp add: calculate_risk_def temperature_as_text_def weather_risk_weights_def)

subsection \<open>The formula\<close>

text \<open>
  C3 (as the code has it): for an observation whose condition label, temperature, wind
  speed and precipitation can be read (a hashable label and three numbers, each the
  member's value or its default when absent) and whose quotients windSpeed/100 and
  precipitation/50 are in the float range, the score is min(0.95, 0.1 + conditionWeight
  + tempRisk + min(windSpeed/100, 0.4) + min(precipitation/50, 0.3)), with the weight
  of the label from the fixed table (0.1 for a label it does not have) and the
  temperature risk 0.3, 0.2 or 0 by the two bands.
\<close>

theorem calculate_risk_formula:
  assumes "condition_of obs = Inr label" and "hashable label"
    and "temperature_of obs = Inr temperature"
    and "wind_speed_of obs = Inr windSpeed" and "in_float_range (windSpeed / 100)"
    and "precipitation_of obs = Inr precipitation" and "in_float_range (precipitation / 50)"
  shows "calculate_risk obs = Inr (score_spec label temperature windSpeed precipitation)"
  using assms
  by (simp add: calculate_risk_fields weights_get_default score_spec_def
      wind_quotient_in_range rain_quotient_in_range)

text \<open>The clear-sky observation: 0.1 + 0.1 + 0 + 0.05 + 0 = 0.25.\<close>

theorem calculate_risk_formula_witness:
  "condition_of clear_sky = Inr (JStr ''Clear'') \<and> hashable (JStr ''Clear'')
   \<and> temperature_of clear_sky = Inr 20
   \<and> wind_speed_of clear_sky = Inr 5 \<and> in_float_range (5 / 100)
   \<and> precipitation_of clear_sky = Inr 0 \<and> in_float_range (0 / 50)
   \<and> calculate_risk clear_sky = Inr (score_spec (JStr ''Clear'') 20 5 0)
   \<and> score_spec (JStr ''Clear'') 20 5 0 = 0.25"
  using calculate_risk_formula [of clear_sky "JStr ''Clear''" 20 5 0]
  by (simp add: condition_of_def temperature_of_def wind_speed_of_def precipitation_of_def
      clear_sky_def score_spec_def condition_weight_def temp_risk_spec_def in_float_range_small)

text \<open>
  C3 as stated fails: the observation \<^verbatim>\<open>{"wind": {"speed": 10**400}}\<close> has the four
  fields "Clear", 0, 10^400 and 0, for which the formula gives 0.1 + 0.1 + 0 + 0.4 + 0 =
  0.6, but the division of the integer wind speed by 100 raises OverflowError.
\<close>

theorem calculate_risk_overflows_on_huge_wind_speed:
  "condition_of huge_wind_speed = Inr (JStr ''Clear'')
   \<and> temperature_of huge_wind_speed = Inr 0
   \<and> wind_speed_of huge_wind_speed = Inr (10 ^ 400)
   \<and> precipitation_of huge_wind_speed = Inr 0
   \<and> score_spec (JStr ''Clear'') 0 (10 ^ 400) 0 = 0.6
   \<and> calculate_risk huge_wind_speed = Inl OverflowError"
  by (simp add: condition_of_def temperature_of_def wind_speed_of_def precipitation_of_def
      huge_wind_speed_def score_spec_def condition_weight_def temp_risk_spec_def
      calculate_risk_def weather_risk_weights_def in_float_range_def float_limit_def)

subsection \<open>Monotonicity\<close>

lemma map_of_dict_set: "map_of (dict_set k v kvs) = (map_of kvs)(k \<mapsto> v)"
  by (induction kvs) (auto simp: fun_eq_iff)

lemma with_wind_speed_fields:
  "condition_of (with_wind_speed kvs wind v) = condition_of (JDict kvs)"
  "temperature_of (with_wind_speed kvs wind v) = temperature_of (JDict kvs)"
  "rain_quotient_of (with_wind_speed kvs wind v) = rain_quotient_of (JDict kvs)"
  "wind_quotient_of (with_wind_speed kvs wind v) = true_div v 100"
  by (simp_all add: with_wind_speed_def condition_of_def temperature_of_def
      rain_quotient_of_def wind_quotient_of_def map_of_dict_set)

lemma with_precipitation_fields:
  "condition_of (with_precipitation kvs rain v) = condition_of (JDict kvs)"
  "temperature_of (with_precipitation kvs rain v) = temperature_of (JDict kvs)"
  "wind_quotient_of (with_precipitation kvs rain v) = wind_quotient_of (JDict kvs)"
  "rain_quotient_of (with_precipitation kvs rain v) = true_div v 50"
  by (simp_all add: with_precipitation_def condition_of_def temperature_of_def
      rain_quotient_of_def wind_quotient_of_def map_of_dict_set)

lemma result_le_InrI: "a \<le> b \<Longrightarrow> result_le (Inr a) (Inr b)"
  by simp

lemma result_le_then_do:
  assumes "\<And>v. result_le (f v) (g v)"
  shows "result_le (then_do m f) (then_do m g)"
  using assms by (cases m) simp_all

lemma score_mono:
  fixes a b :: real
  assumes "a \<le> b"
  shows "min 0.95 (k + min (a / 100) 0.4 + r) \<le> min 0.95 (k + min (b / 100) 0.4 + r)"
    and "min 0.95 (k + r + min (a / 50) 0.3) \<le> min 0.95 (k + r + min (b / 50) 0.3)"
proof -
  from assms have "min (a / 100) 0.4 \<le> min (b / 100) 0.4"
    by (intro min.mono) (simp_all add: divide_right_mono)
  then show "min 0.95 (k + min (a / 100) 0.4 + r) \<le> min 0.95 (k + min (b / 100) 0.4 + r)"
    by (intro min.mono) simp_all
  from assms have "min (a / 50) 0.3 \<le> min (b / 50) 0.3"
    by (intro min.mono) (simp_all add: divide_right_mono)
  then show "min 0.95 (k + r + min (a / 50) 0.3) \<le> min 0.95 (k + r + min (b / 50) 0.3)"
    by (intro min.mono) simp_all
qed

text \<open>
  C6 (as the code has it): take any observation and put the number \<open>v1\<close>, then the number
  \<open>v2\<close>, not smaller, as its wind speed, all other members kept. When both quotients by
  100 are in the float range, the score with \<open>v1\<close> is at most the score with \<open>v2\<close> (and
  where another member makes the computation raise, it raises the same exception with
  both). The same holds for the precipitation of the last hour and the quotients by 50.
\<close>

theorem calculate_risk_monotone:
  assumes "num_of v1 = Inr x1" and "num_of v2 = Inr x2" and "x1 \<le> x2"
  shows "(in_float_range (x1 / 100) \<and> in_float_range (x2 / 100) \<longrightarrow>
            result_le (calculate_risk (with_wind_speed kvs wind v1))
                      (calculate_risk (with_wind_speed kvs wind v2)))
       \<and> (in_float_range (x1 / 50) \<and> in_float_range (x2 / 50) \<longrightarrow>
            result_le (calculate_risk (with_precipitation kvs rain v1))
                      (calculate_risk (with_precipitation kvs rain v2)))"
proof (intro conjI impI)
  assume "in_float_range (x1 / 100) \<and> in_float_range (x2 / 100)"
  with assms(1,2) have q: "true_div v1 100 = Inr (x1 / 100)" "true_div v2 100 = Inr (x2 / 100)"
    by (simp_all add: true_div_in_range)
  show "result_le (calculate_risk (with_wind_speed kvs wind v1))
                  (calculate_risk (with_wind_speed kvs wind v2))"
    unfolding calculate_risk_fields with_wind_speed_fields q then_do_Inr
    by (intro result_le_then_do result_le_InrI score_mono(1) assms(3))
next
  assume "in_float_range (x1 / 50) \<and> in_float_range (x2 / 50)"
  with assms(1,2) have q: "true_div v1 50 = Inr (x1 / 50)" "true_div v2 50 = Inr (x2 / 50)"
    by (simp_all add: true_div_in_range)
  show "result_le (calculate_risk (with_precipitation kvs rain v1))
                  (calculate_risk (with_precipitation kvs rain v2))"
    unfolding calculate_risk_fields with_precipitation_fields q then_do_Inr
    by (intro result_le_then_do result_le_InrI score_mono(2) assms(3))
qed

text \<open>
  Wind speed 5 against 12.5 on the otherwise empty observation: 0.25 against 0.325;
  precipitation 5 against 12.5: 0.3 against 0.45.
\<close>

theorem calculate_risk_monotone_witness:
  "num_of (JInt 5) = Inr 5 \<and> num_of (JFloat 12.5) = Inr 12.5 \<and> (5::real) \<le> 12.5
   \<and> in_float_range (5 / 100) \<and> in_float_range (12.5 / 100)
   \<and> in_float_range (5 / 50) \<and> in_float_range (12.5 / 50)
   \<and> calculate_risk (with_wind_speed [] [] (JInt 5)) = Inr 0.25
   \<and> calculate_risk (with_wind_speed [] [] (JFloat 12.5)) = Inr 0.325
   \<and> calculate_risk (with_precipitation [] [] (JInt 5)) = Inr 0.3
   \<and> calculate_risk (with_precipitation [] [] (JFloat 12.5)) = Inr 0.45"
  using calculate_risk_monotone [of "JInt 5" 5 "JFloat 12.5" "12.5" "[]" "[]" "[]"]
  by (simp add: calculate_risk_def with_wind_speed_def with_precipitation_def
      weather_risk_weights_def in_float_range_small)

text \<open>
  C6 as stated fails: with the integer wind speed 5 the otherwise empty observation has
  the score 0.25; with the larger integer wind speed 10^400 the division by 100 raises
  OverflowError, so no score is returned.
\<close>

theorem calculate_risk_not_monotone_at_overflow:
  "num_of (JInt 5) = Inr 5 \<and> num_of (JInt (10 ^ 400)) = Inr (10 ^ 400)
   \<and> (5::real) \<le> 10 ^ 400
   \<and> calculate_risk (with_wind_speed [] [] (JInt 5)) = Inr 0.25
   \<and> calculate_risk (with_wind_speed [] [] (JInt (10 ^ 400))) = Inl OverflowError
   \<and> \<not> result_le (Inr 0.25) (Inl OverflowError)"
  by (simp add: calculate_risk_def with_wind_speed_def weather_risk_weights_def
      in_float_range_def float_limit_def)

subsection \<open>The empty observation\<close>

text \<open>
  C7: the score of the empty observation \<^verbatim>\<open>{}\<close> is exactly 0.2, the base risk 0.1 plus
  the weight 0.1 of the default condition "Clear", the three other terms being 0.
\<close>

theorem calculate_risk_empty_observation:
  "calculate_risk (JDict []) = Inr 0.2"
  by (simp add: calculate_risk_def weather_risk_weights_def in_float_range_small)

subsection \<open>Colours\<close>

text \<open>
  C9: \<open>get_risk_color\<close> returns one of "green", "orange" and "red": "green" exactly for
  a score below 0.3, "orange" exactly for a score from 0.3 up to but excluding 0.7, "red"
  exactly for a score of 0.7 or more.
\<close>

theorem get_risk_color_bands:
  "get_risk_color s \<in> {''green'', ''orange'', ''red''}
   \<and> (get_risk_color s = ''green'' \<longleftrightarrow> s < 0.3)
   \<and> (get_risk_color s = ''orange'' \<longleftrightarrow> 0.3 \<le> s \<and> s < 0.7)
   \<and> (get_risk_color s = ''red'' \<longleftrightarrow> 0.7 \<le> s)"
  by (simp add: get_risk_color_def)

section \<open>Properties of a refresh pass\<close>

subsection \<open>What a fetch and a pass return\<close>

lemma fetch_weather_data_returns: "fetch_weather_data w self loc = Inr (fetched w self loc)"
  by (simp add: fetched_def fetch_weather_data_def try_except_def then_do_def Let_def
      split: sum.splits)

lemma executor_map_returns:
  assumes "\<And>x. f x = Inr (g x)"
  shows "executor_map f xs = Inr (map g xs)"
  by (induction xs) (simp_all add: assms)

lemma update_all_locations_returns:
  "update_all_locations w self =
     Inr (map the (filter (\<lambda>r. r \<noteq> None) (map (fetched w self) (monitored_locations self))),
          self\<lparr>weather_data := dict_by_location
            (map the (filter (\<lambda>r. r \<noteq> None) (map (fetched w self) (monitored_locations self))))\<rparr>)"
  unfolding update_all_locations_def
  by (simp add: executor_map_returns [where g = "fetched w self"] fetch_weather_data_returns Let_def)

lemma valid_results_filter:
  "map the (filter (\<lambda>r. r \<noteq> None) (map f xs))
   = map (\<lambda>x. the (f x)) (filter (\<lambda>x. f x \<noteq> None) xs)"
  by (induction xs) simp_all

lemma length_valid_results:
  "length (filter (\<lambda>x. f x \<noteq> None) xs) = length xs - length (filter (\<lambda>x. f x = None) xs)"
  using sum_length_filter_compl [of "\<lambda>x. f x = None" xs] by simp

lemma fetched_None_iff:
  "fetched w self loc = None \<longleftrightarrow> fetch_fails w self loc \<or> scorer_raises w self loc"
  by (simp add: fetched_def fetch_weather_data_def fetch_fails_def scorer_raises_def
      try_except_def then_do_def Let_def split: sum.splits)


lemma fetched_location: "fetched w self loc = Some r \<Longrightarrow> location r = name loc"
  by (auto simp add: fetched_def fetch_weather_data_def try_except_def then_do_def Let_def
      split: sum.splits if_splits)

lemma locations_of_valid_results:
  "map location (map (\<lambda>x. the (fetched w self x)) (filter (\<lambda>x. fetched w self x \<noteq> None) xs))
   = map name (filter (\<lambda>x. fetched w self x \<noteq> None) xs)"
  by (induction xs) (auto dest: fetched_location)

subsection \<open>The stored mapping\<close>

lemma dict_by_location_foldl:
  "foldl (\<lambda>m r. m(location r \<mapsto> r)) m0 rs = m0 ++ map_of (rev (map (\<lambda>r. (location r, r)) rs))"
  by (induction rs arbitrary: m0) (simp_all add: map_add_upd_left)

lemma dom_dict_by_location: "dom (dict_by_location rs) = set (map location rs)"
  by (force simp add: dict_by_location_def dict_by_location_foldl dom_map_of_conv_image_fst)

lemma dict_by_location_distinct:
  assumes "distinct (map location rs)" and "r \<in> set rs"
  shows "dict_by_location rs (location r) = Some r"
proof -
  have "distinct (map fst (rev (map (\<lambda>r. (location r, r)) rs)))"
    using assms(1) by (simp add: rev_map [symmetric] comp_def)
  moreover have "(location r, r) \<in> set (rev (map (\<lambda>r. (location r, r)) rs))"
    using assms(2) by auto
  ultimately have "map_of (rev (map (\<lambda>r. (location r, r)) rs)) (location r) = Some r"
    by (rule map_of_is_SomeI)
  then show ?thesis by (simp add: dict_by_location_def dict_by_location_foldl)
qed

subsection \<open>Partial failure\<close>

text \<open>
  C4 (as the code has it): with location names unique, a pass over N locations of which K
  give no record, because the fetch fails (network error, status other than 200, body
  that does not parse) or because the scorer raises on the body, returns N - K snapshots;
  the stored mapping afterward has exactly these N - K entries, each under its location
  name, and no entry under the name of a location that gave no record, whatever was
  stored before.
\<close>

theorem update_all_locations_partial_failure:
  assumes "distinct (map name (monitored_locations self))"
  shows "\<exists>results self'. update_all_locations w self = Inr (results, self')
     \<and> length results = length (monitored_locations self)
          - length (filter (\<lambda>loc. fetch_fails w self loc \<or> scorer_raises w self loc)
                      (monitored_locations self))
     \<and> dom (weather_data self') = set (map location results)
     \<and> card (dom (weather_data self')) = length results
     \<and> (\<forall>r \<in> set results. weather_data self' (location r) = Some r)
     \<and> (\<forall>loc \<in> set (monitored_locations self).
           fetch_fails w self loc \<or> scorer_raises w self loc
           \<longrightarrow> weather_data self' (name loc) = None)"
proof -
  define locs where "locs = monitored_locations self"
  define ok where "ok = filter (\<lambda>loc. fetched w self loc \<noteq> None) locs"
  define results where "results = map (\<lambda>loc. the (fetched w self loc)) ok"
  define self' where "self' = self\<lparr>weather_data := dict_by_location results\<rparr>"
  have ret: "update_all_locations w self = Inr (results, self')"
    unfolding self'_def results_def ok_def locs_def update_all_locations_returns valid_results_filter
    by (rule refl)
  have names: "map location results = map name ok"
    unfolding results_def ok_def by (rule locations_of_valid_results)
  have dist_ok: "distinct (map name ok)"
    using assms unfolding ok_def locs_def by (rule distinct_map_filter)
  have none_eq: "(\<lambda>loc. fetched w self loc = None)
      = (\<lambda>loc. fetch_fails w self loc \<or> scorer_raises w self loc)"
    by (simp add: fetched_None_iff)
  have "length results = length locs - length (filter (\<lambda>loc. fetched w self loc = None) locs)"
    unfolding results_def ok_def length_map by (rule length_valid_results)
  then have len: "length results = length locs
      - length (filter (\<lambda>loc. fetch_fails w self loc \<or> scorer_raises w self loc) locs)"
    unfolding none_eq .
  have dom_eq: "dom (weather_data self') = set (map location results)"
    by (simp add: self'_def dom_dict_by_location)
  have dist_results: "distinct (map location results)"
    using dist_ok by (simp only: names)
  then have "card (set (map location results)) = length (map location results)"
    by (rule distinct_card)
  then have card_eq: "card (dom (weather_data self')) = length results"
    by (simp only: dom_eq length_map)
  have stored: "\<forall>r \<in> set results. weather_data self' (location r) = Some r"
    using dict_by_location_distinct [OF dist_results] by (simp add: self'_def)
  have gone: "\<forall>loc \<in> set locs.
      fetch_fails w self loc \<or> scorer_raises w self loc \<longrightarrow> weather_data self' (name loc) = None"
  proof (intro ballI impI)
    fix loc
    assume loc: "loc \<in> set locs"
      and failed: "fetch_fails w self loc \<or> scorer_raises w self loc"
    from failed have not_ok: "loc \<notin> set ok"
      by (simp add: ok_def fetched_None_iff)
    have "name loc \<notin> set (map name ok)"
    proof
      assume "name loc \<in> set (map name ok)"
      then obtain l where l: "l \<in> set ok" "name l = name loc" by auto
      then have "l \<in> set locs" by (simp add: ok_def)
      with assms loc l(2) have "l = loc"
        unfolding locs_def by (meson distinct_map inj_onD)
      with l(1) not_ok show False by simp
    qed
    then have "name loc \<notin> dom (weather_data self')"
      by (simp add: dom_eq names)
    then show "weather_data self' (name loc) = None" by blast
  qed
  from ret len dom_eq card_eq stored gone show ?thesis
    unfolding locs_def by blast
qed

text \<open>
  Three cities, New York with an entry from an earlier pass; New York's request raises,
  the two others answer: two snapshots, two stored entries, none for New York.
\<close>

theorem update_all_locations_partial_failure_witness:
  "distinct (map name (monitored_locations three_cities))
   \<and> length (filter (\<lambda>loc. fetch_fails mixed_world three_cities loc
                          \<or> scorer_raises mixed_world three_cities loc)
               (monitored_locations three_cities)) = 1
   \<and> weather_data three_cities ''New York'' = Some stale_new_york
   \<and> (\<exists>results self'. update_all_locations mixed_world three_cities = Inr (results, self')
        \<and> length results = 2 \<and> card (dom (weather_data self')) = 2
        \<and> weather_data self' ''New York'' = None)"
proof -
  have d: "distinct (map name (monitored_locations three_cities))"
    by (simp add: three_cities_def)
  have k: "length (filter (\<lambda>loc. fetch_fails mixed_world three_cities loc
                          \<or> scorer_raises mixed_world three_cities loc)
               (monitored_locations three_cities)) = 1"
    by (simp add: three_cities_def fetch_fails_def scorer_raises_def mixed_world_def
        request_params_def calculate_risk_clear_sky)
  have ny: "\<lparr>name = ''New York'', lat = 40.7128, lon = - 74.0060\<rparr>
              \<in> set (monitored_locations three_cities)"
    "fetch_fails mixed_world three_cities \<lparr>name = ''New York'', lat = 40.7128, lon = - 74.0060\<rparr>"
    by (simp_all add: three_cities_def fetch_fails_def mixed_world_def request_params_def)
  have n: "length (monitored_locations three_cities) = 3"
    by (simp add: three_cities_def)
  have s: "weather_data three_cities ''New York'' = Some stale_new_york"
    by (simp add: three_cities_def)
  from update_all_locations_partial_failure [OF d, of mixed_world] k n ny
  have "\<exists>results self'. update_all_locations mixed_world three_cities = Inr (results, self')
        \<and> length results = 2 \<and> card (dom (weather_data self')) = 2
        \<and> weather_data self' ''New York'' = None"
    by fastforce
  with d k s show ?thesis by blast
qed

text \<open>
  C4 as stated fails: when each of three locations answers 200 with the body
  \<^verbatim>\<open>{"weather": []}\<close>, no fetch fails by network error, status or parse error (K = 0),
  yet the scorer raises IndexError inside the \<^verbatim>\<open>try\<close> block of each fetch and the pass
  returns no snapshot instead of three.
\<close>

theorem update_all_locations_drops_scorer_failure:
  "length (monitored_locations three_cities) = 3
   \<and> length (filter (fetch_fails empty_weather_world three_cities)
               (monitored_locations three_cities)) = 0
   \<and> update_all_locations empty_weather_world three_cities
       = Inr ([], three_cities\<lparr>weather_data := Map.empty\<rparr>)"
  by (simp add: update_all_locations_def fetch_weather_data_def try_except_def
      empty_weather_world_def three_cities_def request_params_def fetch_fails_def
      calculate_risk_empty_weather_list dict_by_location_def Let_def)

subsection \<open>No failure reaches the caller\<close>



subsection \<open>No locations\<close>

text \<open>
  C8: with an empty list of monitored locations a pass returns the empty list, without
  error, and the stored mapping afterward is empty.
\<close>

theorem update_all_locations_no_locations:
  assumes "monitored_locations self = []"
  shows "update_all_locations w self = Inr ([], self\<lparr>weather_data := Map.empty\<rparr>)"
  using assms by (simp add: update_all_locations_def dict_by_location_def)

theorem update_all_locations_no_locations_witness:
  "monitored_locations no_cities = []
   \<and> update_all_locations mixed_world no_cities = Inr ([], no_cities\<lparr>weather_data := Map.empty\<rparr>)
   \<and> weather_data (no_cities\<lparr>weather_data := Map.empty\<rparr>) = Map.empty"
  using update_all_locations_no_locations [of no_cities mixed_world]
  by (simp add: no_cities_def)

subsection \<open>Order of the result\<close>

text \<open>
  C10: a pass returns, in the order of the monitored-location list, the record of each
  location whose fetch gave one: the location names of the result are the names of the
  monitored locations restricted to those whose fetch succeeded, in the same order.
\<close>

theorem update_all_locations_keeps_order:
  "\<exists>results self'. update_all_locations w self = Inr (results, self')
     \<and> results = map (\<lambda>loc. the (fetched w self loc))
                    (filter (\<lambda>loc. fetched w self loc \<noteq> None) (monitored_locations self))
     \<and> map location results
         = map name (filter (\<lambda>loc. fetched w self loc \<noteq> None) (monitored_locations self))"
  unfolding update_all_locations_returns valid_results_filter
  using locations_of_valid_results [of w self "monitored_locations self"] by blast

end
